theory Spec2Isabelle
  imports Main "HOL-Library.AList"
begin

section \<open>The article routes of \<^verbatim>\<open>src/app/api/articles.ts\<close>\<close>

text \<open>
  The file binds five handlers to a Hono application.  Each handler reads its validated
  input, awaits one or two calls of the article repository found in the request context,
  and answers with \<^verbatim>\<open>c.text\<close> or \<^verbatim>\<open>c.json\<close>.  The handlers
  are embedded as functions of the repository, the validated input and the store; every
  awaited repository call is written into a call log, so that which operation a handler
  invoked, and with which arguments, is part of its result.
\<close>

subsection \<open>JSON values, responses\<close>

datatype json =
    JNull
  | JBool bool
  | JNumber int
  | JString string
  | JArray "json list"
  | JObject "(string \<times> json) list"

text \<open>A JavaScript object: its own keys in insertion order, each with its value.\<close>

type_synonym obj = "(string \<times> json) list"

datatype body = Text string | Json json

record response =
  status :: nat
  body :: body

text \<open>\<^verbatim>\<open>c.text(text, status)\<close>.\<close>

definition c_text :: "string \<Rightarrow> nat \<Rightarrow> response" where
  "c_text t st = \<lparr>status = st, body = Text t\<rparr>"

text \<open>\<^verbatim>\<open>c.json(object, status?)\<close>: a call that gives no status answers 200.\<close>

definition c_json :: "json \<Rightarrow> nat option \<Rightarrow> response" where
  "c_json v st = \<lparr>status = (case st of None \<Rightarrow> 200 | Some n \<Rightarrow> n), body = Json v\<rparr>"

text \<open>The object literals \<^verbatim>\<open>{ article }\<close>, \<^verbatim>\<open>{ articles }\<close> and
  \<^verbatim>\<open>{ message: ... }\<close> of the handlers.\<close>

definition ArticleResponse :: "obj \<Rightarrow> json" where
  "ArticleResponse article = JObject [(''article'', JObject article)]"

definition ArticlesResponse :: "obj list \<Rightarrow> json" where
  "ArticlesResponse articles = JObject [(''articles'', JArray (map JObject articles))]"

definition MessageResponse :: "string \<Rightarrow> json" where
  "MessageResponse m = JObject [(''message'', JString m)]"

subsection \<open>The repository found in the request context\<close>

text \<open>
  Modelled from the spec: the type of \<^verbatim>\<open>c.var.repositories.articleRepository\<close> is
  declared outside \<^verbatim>\<open>src/\<close>.  Section 6 of the specification gives its contract:
  \<^verbatim>\<open>findById(id) -> Article | absent\<close>, \<^verbatim>\<open>findByAuthorId(authorId) -> sequence<Article>\<close>,
  \<^verbatim>\<open>findAll() -> sequence<Article>\<close>, \<^verbatim>\<open>create(data) -> Article\<close>,
  \<^verbatim>\<open>update(id, partialData) -> Article\<close>, \<^verbatim>\<open>delete(id) -> void\<close>.
  The handlers take the repository as a parameter: a record of operations over a store of
  any type \<open>'s\<close>.  The three lookups read the store; the three other operations return
  the store they leave.  An operation may fail (the awaited promise rejects): \<open>Inl\<close>.
\<close>

datatype error = RepositoryFailure

record 's article_repository =
  findById :: "'s \<Rightarrow> string \<Rightarrow> error + obj option"
  findByAuthorId :: "'s \<Rightarrow> string \<Rightarrow> error + obj list"
  findAll :: "'s \<Rightarrow> error + obj list"
  create :: "'s \<Rightarrow> obj \<Rightarrow> error + obj \<times> 's"
  update :: "'s \<Rightarrow> string \<Rightarrow> obj \<Rightarrow> error + obj \<times> 's"
  delete :: "'s \<Rightarrow> string \<Rightarrow> error + 's"

text \<open>The repository calls a handler has awaited, oldest first.\<close>

datatype call =
    FindById string
  | FindByAuthorId string
  | FindAll
  | Create obj
  | Update string obj
  | Delete string

text \<open>
  A handler is an asynchronous function: it runs from a store and a call log and either
  rejects with the error of a repository call it awaited (nothing in the file catches
  one), or resolves to a value, with the store and the log it leaves.
\<close>

type_synonym ('s, 'a) async = "'s \<times> call list \<Rightarrow> error + 'a \<times> ('s \<times> call list)"

definition resolve :: "'a \<Rightarrow> ('s, 'a) async" where
  "resolve x = (\<lambda>\<sigma>. Inr (x, \<sigma>))"

definition await :: "('s, 'a) async \<Rightarrow> ('a \<Rightarrow> ('s, 'b) async) \<Rightarrow> ('s, 'b) async" where
  "await m k = (\<lambda>\<sigma>. case m \<sigma> of Inl e \<Rightarrow> Inl e | Inr (x, \<sigma>') \<Rightarrow> k x \<sigma>')"

definition call_findById :: "'s article_repository \<Rightarrow> string \<Rightarrow> ('s, obj option) async" where
  "call_findById r i = (\<lambda>(s, lg).
     case findById r s i of Inl e \<Rightarrow> Inl e | Inr a \<Rightarrow> Inr (a, (s, lg @ [FindById i])))"

definition call_findByAuthorId :: "'s article_repository \<Rightarrow> string \<Rightarrow> ('s, obj list) async" where
  "call_findByAuthorId r au = (\<lambda>(s, lg).
     case findByAuthorId r s au of Inl e \<Rightarrow> Inl e | Inr as \<Rightarrow> Inr (as, (s, lg @ [FindByAuthorId au])))"

definition call_findAll :: "'s article_repository \<Rightarrow> ('s, obj list) async" where
  "call_findAll r = (\<lambda>(s, lg).
     case findAll r s of Inl e \<Rightarrow> Inl e | Inr as \<Rightarrow> Inr (as, (s, lg @ [FindAll])))"

definition call_create :: "'s article_repository \<Rightarrow> obj \<Rightarrow> ('s, obj) async" where
  "call_create r d = (\<lambda>(s, lg).
     case create r s d of Inl e \<Rightarrow> Inl e | Inr (a, s') \<Rightarrow> Inr (a, (s', lg @ [Create d])))"

definition call_update :: "'s article_repository \<Rightarrow> string \<Rightarrow> obj \<Rightarrow> ('s, obj) async" where
  "call_update r i d = (\<lambda>(s, lg).
     case update r s i d of Inl e \<Rightarrow> Inl e | Inr (a, s') \<Rightarrow> Inr (a, (s', lg @ [Update i d])))"

definition call_delete :: "'s article_repository \<Rightarrow> string \<Rightarrow> ('s, unit) async" where
  "call_delete r i = (\<lambda>(s, lg).
     case delete r s i of Inl e \<Rightarrow> Inl e | Inr s' \<Rightarrow> Inr ((), (s', lg @ [Delete i])))"

subsection \<open>The five handlers\<close>

text \<open>
  \<^verbatim>\<open>.get('/:id', ...)\<close>, lines 43 to 54.  \<open>i\<close> is \<^verbatim>\<open>c.req.valid('param').id\<close>.
  \<^verbatim>\<open>!article\<close> holds exactly when the lookup found nothing: an object is truthy.
\<close>

definition get_id_handler :: "'s article_repository \<Rightarrow> string \<Rightarrow> ('s, response) async" where
  "get_id_handler r i =
     await (call_findById r i) (\<lambda>article.
       case article of
         None \<Rightarrow> resolve (c_text ''Article not found'' 404)
       | Some a \<Rightarrow> resolve (c_json (ArticleResponse a) (Some 200)))"

text \<open>
  \<^verbatim>\<open>.get('/', ...)\<close>, lines 72 to 83.  The validated query is
  \<^verbatim>\<open>optional(object({ authorId: optional(string()) }))\<close>: the query may be undefined,
  and so may its \<^verbatim>\<open>authorId\<close>.  \<^verbatim>\<open>query?.authorId\<close> is \<open>author_of\<close>.  The
  condition \<^verbatim>\<open>authorId ? ... : ...\<close> is JavaScript truthiness: undefined is falsy,
  and a string is truthy exactly when it is not empty (\<open>truthy\<close>).
\<close>

record article_query =
  authorId :: "string option"

definition author_of :: "article_query option \<Rightarrow> string option" where
  "author_of query = (case query of None \<Rightarrow> None | Some q \<Rightarrow> authorId q)"

definition truthy :: "string \<Rightarrow> bool" where
  "truthy t = (t \<noteq> [])"

definition get_handler :: "'s article_repository \<Rightarrow> article_query option \<Rightarrow> ('s, response) async" where
  "get_handler r query =
     await
       (case author_of query of
          None \<Rightarrow> call_findAll r
        | Some au \<Rightarrow> if truthy au then call_findByAuthorId r au else call_findAll r)
       (\<lambda>articles. resolve (c_json (ArticlesResponse articles) None))"

text \<open>\<^verbatim>\<open>.post('/', ...)\<close>, lines 101 to 108.  \<open>d\<close> is \<^verbatim>\<open>c.req.valid('json')\<close>.\<close>

definition post_handler :: "'s article_repository \<Rightarrow> obj \<Rightarrow> ('s, response) async" where
  "post_handler r d =
     await (call_create r d) (\<lambda>article.
       resolve (c_json (ArticleResponse article) None))"

text \<open>\<^verbatim>\<open>.put('/:id', ...)\<close>, lines 130 to 144.\<close>

definition put_handler :: "'s article_repository \<Rightarrow> string \<Rightarrow> obj \<Rightarrow> ('s, response) async" where
  "put_handler r i d =
     await (call_findById r i) (\<lambda>existingArticle.
       case existingArticle of
         None \<Rightarrow> resolve (c_text ''Article not found'' 404)
       | Some _ \<Rightarrow>
           await (call_update r i d) (\<lambda>article.
             resolve (c_json (ArticleResponse article) None)))"

text \<open>\<^verbatim>\<open>.delete('/:id', ...)\<close>, lines 160 to 171.\<close>

definition delete_handler :: "'s article_repository \<Rightarrow> string \<Rightarrow> ('s, response) async" where
  "delete_handler r i =
     await (call_findById r i) (\<lambda>existingArticle.
       case existingArticle of
         None \<Rightarrow> resolve (c_text ''Article not found'' 404)
       | Some _ \<Rightarrow>
           await (call_delete r i) (\<lambda>_.
             resolve (c_json (MessageResponse ''Article deleted successfully'') None)))"

subsection \<open>Request validation\<close>

text \<open>
  Modelled from the spec: \<^verbatim>\<open>ArticleSchema\<close> (\<^verbatim>\<open>../models/article\<close>) is not under
  \<^verbatim>\<open>src/\<close>, and \<^verbatim>\<open>v.omit\<close>, \<^verbatim>\<open>v.partial\<close> and the validator middleware
  belong to the validation library.  The specification describes them as the derivation of
  input shapes from one record shape by field-subset and optional-marking, with a request
  that fails its shape (a missing, extra or mistyped field) rejected before the handler
  runs.  An object shape is the list of its declared fields, each with its own check and
  a mark when it may be left out, and what it does with a key it does not declare: the
  library's plain object shape drops it from the validated output, the specification's
  section 7 counts it as a validation error.  The article shape itself is a parameter.
\<close>

record field_schema =
  optional :: bool
  check :: "json \<Rightarrow> json option"

datatype unknown_keys = Strip | Reject

record object_schema =
  entries :: "(string \<times> field_schema) list"
  unknown :: unknown_keys

text \<open>Modelled from the spec: \<^verbatim>\<open>v.omit(schema, keys)\<close>, the shape without the named
  fields.\<close>

definition v_omit :: "object_schema \<Rightarrow> string list \<Rightarrow> object_schema" where
  "v_omit sch ks = sch\<lparr>entries := filter (\<lambda>(k, f). k \<notin> set ks) (entries sch)\<rparr>"

text \<open>Modelled from the spec: \<^verbatim>\<open>v.partial(schema)\<close>, the same fields, each of them
  optional.\<close>

definition v_partial :: "object_schema \<Rightarrow> object_schema" where
  "v_partial sch = sch\<lparr>entries := map (\<lambda>(k, f). (k, f\<lparr>optional := True\<rparr>)) (entries sch)\<rparr>"

text \<open>Line 7: \<^verbatim>\<open>const ArticleWithoutIdSchema = v.omit(ArticleSchema, ['id'])\<close>.\<close>

definition ArticleWithoutIdSchema :: "object_schema \<Rightarrow> object_schema" where
  "ArticleWithoutIdSchema ArticleSchema = v_omit ArticleSchema [''id'']"

text \<open>
  Modelled from the spec: validation of an input object, field by declared field.  A
  declared key the input has is checked and kept, one it lacks is left out when optional
  and fails the input otherwise.
\<close>

fun parse_entries :: "(string \<times> field_schema) list \<Rightarrow> obj \<Rightarrow> obj option" where
  "parse_entries [] inp = Some []"
| "parse_entries ((k, f) # es) inp =
     (case map_of inp k of
        None \<Rightarrow> if optional f then parse_entries es inp else None
      | Some v \<Rightarrow>
          (case check f v of
             None \<Rightarrow> None
           | Some w \<Rightarrow>
               (case parse_entries es inp of
                  None \<Rightarrow> None
                | Some out \<Rightarrow> Some ((k, w) # out))))"

text \<open>
  Modelled from the spec: validation of a request body against an object shape.  A body
  that is not an object fails; so does one with an undeclared key, when the shape rejects
  such keys.
\<close>

definition v_parse :: "object_schema \<Rightarrow> json \<Rightarrow> obj option" where
  "v_parse sch raw =
     (case raw of
        JObject inp \<Rightarrow>
          if unknown sch = Reject \<and> \<not> list_all (\<lambda>(k, v). k \<in> set (map fst (entries sch))) inp
          then None
          else parse_entries (entries sch) inp
      | _ \<Rightarrow> None)"

text \<open>
  Modelled from the spec: \<^verbatim>\<open>vValidator('json', schema)\<close> in front of a handler.  The
  handler runs on the validated output, or the request is rejected and the handler does
  not run.  (The \<^verbatim>\<open>'param'\<close> validator asks for a string \<^verbatim>\<open>id\<close>, which a path
  segment is.)
\<close>

datatype outcome = Invalid | Handled response

definition vValidator ::
  "object_schema \<Rightarrow> json \<Rightarrow> (obj \<Rightarrow> ('s, response) async) \<Rightarrow> ('s, outcome) async" where
  "vValidator sch raw handler =
     (case v_parse sch raw of
        None \<Rightarrow> resolve Invalid
      | Some d \<Rightarrow> await (handler d) (\<lambda>resp. resolve (Handled resp)))"

text \<open>Lines 100 and 129: the JSON validators of \<^verbatim>\<open>POST /\<close> and \<^verbatim>\<open>PUT /:id\<close>, each
  in front of its handler.\<close>

definition post_route :: "object_schema \<Rightarrow> 's article_repository \<Rightarrow> json \<Rightarrow> ('s, outcome) async" where
  "post_route ArticleSchema r raw =
     vValidator (ArticleWithoutIdSchema ArticleSchema) raw (post_handler r)"

definition put_route ::
  "object_schema \<Rightarrow> 's article_repository \<Rightarrow> string \<Rightarrow> json \<Rightarrow> ('s, outcome) async" where
  "put_route ArticleSchema r i raw =
     vValidator (v_partial (ArticleWithoutIdSchema ArticleSchema)) raw (put_handler r i)"

text \<open>A repository call that hands over an object with an \<^verbatim>\<open>id\<close> key.\<close>

fun carries_id :: "call \<Rightarrow> bool" where
  "carries_id (Create d) = (''id'' \<in> set (map fst d))"
| "carries_id (Update i d) = (''id'' \<in> set (map fst d))"
| "carries_id _ = False"

subsection \<open>An in-memory repository\<close>

text \<open>
  Modelled from the spec: the implementation of the article repository is not under
  \<^verbatim>\<open>src/\<close>.  The specification says of it: an article is a record with a string
  \<^verbatim>\<open>id\<close> and further fields, among them the author reference \<^verbatim>\<open>authorId\<close>;
  \<^verbatim>\<open>findById\<close> yields the record with the given id or nothing;
  \<^verbatim>\<open>findByAuthorId\<close> yields all articles whose author matches;
  \<^verbatim>\<open>findAll\<close> yields all articles; \<^verbatim>\<open>create\<close> assigns a new identity
  (non-empty, not seen before) and persists the record with the submitted fields;
  \<^verbatim>\<open>update\<close> applies the supplied fields and leaves the others, returning the full
  record; \<^verbatim>\<open>delete\<close> destroys the record.  The store keeps the articles in the
  order of their creation and every id it has ever issued.
\<close>

record store =
  stored :: "obj list"
  issued :: "string list"

text \<open>Modelled from the spec: the article's \<^verbatim>\<open>id\<close> is this string.\<close>

definition has_id :: "string \<Rightarrow> obj \<Rightarrow> bool" where
  "has_id i a = (map_of a ''id'' = Some (JString i))"

text \<open>Modelled from the spec: the article's author reference is this string.\<close>

definition written_by :: "string \<Rightarrow> obj \<Rightarrow> bool" where
  "written_by au a = (map_of a ''authorId'' = Some (JString au))"

text \<open>Modelled from the spec: a new identity.  The id is longer than every id issued so
  far, hence non-empty and not seen before.\<close>

definition fresh_id :: "string list \<Rightarrow> string" where
  "fresh_id used = replicate (Suc (fold max (map length used) 0)) CHR ''a''"

text \<open>Modelled from the spec: the supplied fields written over a record, as
  \<^verbatim>\<open>{ ...a, ...d }\<close> does; fields that are not supplied stay.\<close>

definition assign :: "obj \<Rightarrow> obj \<Rightarrow> obj" where
  "assign a d = fold (\<lambda>(k, v). AList.update k v) d a"

text \<open>Modelled from the spec: \<^verbatim>\<open>findById(id) -> Article | absent\<close>.\<close>

definition mem_findById :: "store \<Rightarrow> string \<Rightarrow> error + obj option" where
  "mem_findById s i = Inr (find (has_id i) (stored s))"

text \<open>Modelled from the spec: \<^verbatim>\<open>findByAuthorId(authorId) -> sequence<Article>\<close>, all
  articles whose author matches.\<close>

definition mem_findByAuthorId :: "store \<Rightarrow> string \<Rightarrow> error + obj list" where
  "mem_findByAuthorId s au = Inr (filter (written_by au) (stored s))"

text \<open>Modelled from the spec: \<^verbatim>\<open>findAll() -> sequence<Article>\<close>.\<close>

definition mem_findAll :: "store \<Rightarrow> error + obj list" where
  "mem_findAll s = Inr (stored s)"

text \<open>Modelled from the spec: \<^verbatim>\<open>create(data) -> Article\<close>.  The repository assigns a
  new identity and persists the record.\<close>

definition mem_create :: "store \<Rightarrow> obj \<Rightarrow> error + obj \<times> store" where
  "mem_create s d =
     (let i = fresh_id (issued s);
          a = AList.update ''id'' (JString i) d
      in Inr (a, \<lparr>stored = stored s @ [a], issued = i # issued s\<rparr>))"

text \<open>Modelled from the spec: \<^verbatim>\<open>update(id, partialData) -> Article\<close>.  Without a
  record of that id there is no article to return: the call fails.\<close>

definition mem_update :: "store \<Rightarrow> string \<Rightarrow> obj \<Rightarrow> error + obj \<times> store" where
  "mem_update s i d =
     (case find (has_id i) (stored s) of
        None \<Rightarrow> Inl RepositoryFailure
      | Some a \<Rightarrow>
          Inr (assign a d,
               s\<lparr>stored := map (\<lambda>x. if has_id i x then assign x d else x) (stored s)\<rparr>))"

text \<open>Modelled from the spec: \<^verbatim>\<open>delete(id) -> void\<close>.\<close>

definition mem_delete :: "store \<Rightarrow> string \<Rightarrow> error + store" where
  "mem_delete s i = Inr (s\<lparr>stored := filter (\<lambda>a. \<not> has_id i a) (stored s)\<rparr>)"

text \<open>Modelled from the spec: the six operations as one repository.\<close>

definition mem_repository :: "store article_repository" where
  "mem_repository =
     \<lparr>findById = mem_findById, findByAuthorId = mem_findByAuthorId, findAll = mem_findAll,
      create = mem_create, update = mem_update, delete = mem_delete\<rparr>"

text \<open>Modelled from the spec: every stored article carries an id the store has issued.\<close>

definition store_ok :: "store \<Rightarrow> bool" where
  "store_ok s = list_all (\<lambda>a. list_ex (\<lambda>i. has_id i a) (issued s)) (stored s)"

subsection \<open>Example data\<close>

text \<open>The article of the specification's scenario, stored under the id \<^verbatim>\<open>a\<close>, and a
  second article by another author.\<close>

definition article_u1 :: obj where
  "article_u1 = [(''id'', JString ''a''), (''title'', JString ''T''), (''authorId'', JString ''u1'')]"

definition store_u1 :: store where
  "store_u1 = \<lparr>stored = [article_u1], issued = [''a'']\<rparr>"

definition article_u2 :: obj where
  "article_u2 = [(''id'', JString ''aa''), (''title'', JString ''U''), (''authorId'', JString ''u2'')]"

definition store_two :: store where
  "store_two = \<lparr>stored = [article_u1, article_u2], issued = [''aa'', ''a'']\<rparr>"

text \<open>An article shape for that scenario: three string fields, undeclared keys dropped.\<close>

definition v_string :: field_schema where
  "v_string = \<lparr>optional = False, check = (\<lambda>v. case v of JString t \<Rightarrow> Some v | _ \<Rightarrow> None)\<rparr>"

definition ArticleSchema_example :: object_schema where
  "ArticleSchema_example =
     \<lparr>entries = [(''id'', v_string), (''title'', v_string), (''authorId'', v_string)],
      unknown = Strip\<rparr>"

section \<open>Auxiliary facts\<close>

lemmas async_defs =
  await_def resolve_def call_findById_def call_findByAuthorId_def call_findAll_def
  call_create_def call_update_def call_delete_def

lemmas reply_defs =
  c_text_def c_json_def ArticleResponse_def ArticlesResponse_def MessageResponse_def

lemmas mem_defs =
  mem_repository_def mem_findById_def mem_findByAuthorId_def mem_findAll_def
  mem_create_def mem_update_def mem_delete_def

lemmas example_defs =
  store_u1_def article_u1_def store_two_def article_u2_def has_id_def written_by_def

subsection \<open>Which calls a handler makes\<close>

lemma post_handler_log:
  assumes "post_handler r d (s, []) = Inr (resp, (s', lg))"
  shows "lg = [Create d]"
proof (cases "create r s d")
  case (Inl e)
  with assms show ?thesis by (simp add: post_handler_def async_defs)
next
  case (Inr p)
  with assms show ?thesis by (cases p) (simp add: post_handler_def async_defs)
qed

lemma put_handler_log:
  assumes "put_handler r i d (s, []) = Inr (resp, (s', lg))"
  shows "lg = [FindById i] \<or> lg = [FindById i, Update i d]"
proof (cases "findById r s i")
  case (Inl e)
  with assms show ?thesis by (simp add: put_handler_def async_defs)
next
  case (Inr found)
  show ?thesis
  proof (cases found)
    case None
    with Inr assms show ?thesis by (simp add: put_handler_def async_defs)
  next
    case (Some a)
    show ?thesis
    proof (cases "update r s i d")
      case (Inl e)
      with Inr Some assms show ?thesis by (simp add: put_handler_def async_defs)
    next
      case upd: (Inr p)
      with Inr Some assms show ?thesis by (cases p) (simp add: put_handler_def async_defs)
    qed
  qed
qed

subsection \<open>Validated input\<close>

lemma parse_entries_keys:
  "parse_entries es inp = Some out \<Longrightarrow> set (map fst out) \<subseteq> set (map fst es)"
proof (induction es arbitrary: out)
  case Nil
  then show ?case by simp
next
  case (Cons e es)
  obtain k f where e: "e = (k, f)" by (cases e)
  show ?case
  proof (cases "map_of inp k")
    case None
    with Cons.prems e have "parse_entries es inp = Some out"
      by (simp split: if_splits)
    then have "set (map fst out) \<subseteq> set (map fst es)" by (rule Cons.IH)
    then show ?thesis by auto
  next
    case (Some v)
    with Cons.prems e obtain w out' where
      rest: "parse_entries es inp = Some out'" and out: "out = (k, w) # out'"
      by (auto split: option.splits)
    from rest have "set (map fst out') \<subseteq> set (map fst es)" by (rule Cons.IH)
    with out e show ?thesis by auto
  qed
qed

lemma v_parse_keys:
  assumes "v_parse sch raw = Some d"
  shows "set (map fst d) \<subseteq> set (map fst (entries sch))"
proof -
  from assms obtain inp where "parse_entries (entries sch) inp = Some d"
    by (cases raw) (simp_all add: v_parse_def split: if_splits)
  then show ?thesis by (rule parse_entries_keys)
qed

lemma without_id_keys:
  "set (map fst (entries (ArticleWithoutIdSchema A))) = set (map fst (entries A)) - {''id''}"
  by (auto simp: ArticleWithoutIdSchema_def v_omit_def)

lemma partial_keys: "map fst (entries (v_partial sch)) = map fst (entries sch)"
  by (simp add: v_partial_def case_prod_unfold comp_def)

lemma partial_optional: "list_all (\<lambda>(k, f). optional f) (entries (v_partial sch))"
  by (simp add: v_partial_def list_all_iff case_prod_unfold)

lemma route_data_without_id:
  assumes "v_parse (ArticleWithoutIdSchema A) raw = Some d \<or>
           v_parse (v_partial (ArticleWithoutIdSchema A)) raw = Some d"
  shows "''id'' \<notin> set (map fst d)"
  using assms v_parse_keys [of "ArticleWithoutIdSchema A" raw d]
    v_parse_keys [of "v_partial (ArticleWithoutIdSchema A)" raw d]
    without_id_keys [of A] partial_keys [of "ArticleWithoutIdSchema A"]
  by auto

lemma vValidator_handled:
  assumes "vValidator sch raw h \<sigma> = Inr (out, \<sigma>')"
  shows "(out = Invalid \<and> \<sigma>' = \<sigma>) \<or>
     (\<exists>d resp. v_parse sch raw = Some d \<and> h d \<sigma> = Inr (resp, \<sigma>') \<and> out = Handled resp)"
proof (cases "v_parse sch raw")
  case None
  with assms show ?thesis by (simp add: vValidator_def resolve_def)
next
  case (Some d)
  show ?thesis
  proof (cases "h d \<sigma>")
    case (Inl e)
    with Some assms show ?thesis by (simp add: vValidator_def await_def)
  next
    case (Inr p)
    with Some assms show ?thesis
      by (cases p) (simp add: vValidator_def await_def resolve_def)
  qed
qed

subsection \<open>The in-memory repository\<close>

lemma mem_findById_has_id:
  "findById mem_repository st i = Inr (Some b) \<Longrightarrow> has_id i b"
  by (auto simp: mem_defs find_Some_iff)

lemma fold_max_lower: "n \<le> fold max ys (n::nat)"
  by (induction ys arbitrary: n) (auto intro: order_trans [OF max.cobounded2])

lemma fold_max_upper: "y \<in> set ys \<Longrightarrow> y \<le> fold max ys (n::nat)"
proof (induction ys arbitrary: n)
  case Nil
  then show ?case by simp
next
  case (Cons z zs)
  show ?case
  proof (cases "y = z")
    case True
    have "z \<le> max z n" by simp
    also have "\<dots> \<le> fold max zs (max z n)" by (rule fold_max_lower)
    finally show ?thesis using True by simp
  next
    case False
    with Cons show ?thesis by simp
  qed
qed

lemma fresh_id_nonempty: "fresh_id used \<noteq> []"
  by (simp add: fresh_id_def)

lemma fresh_id_new: "fresh_id used \<notin> set used"
proof
  assume "fresh_id used \<in> set used"
  then have "length (fresh_id used) \<in> set (map length used)" by simp
  then have "length (fresh_id used) \<le> fold max (map length used) 0"
    by (rule fold_max_upper)
  then show False by (simp add: fresh_id_def)
qed

lemma has_id_unique: "has_id i a \<Longrightarrow> has_id j a \<Longrightarrow> i = j"
  by (simp add: has_id_def)

lemma store_ok_fresh:
  assumes "store_ok st" and "b \<in> set (stored st)"
  shows "\<not> has_id (fresh_id (issued st)) b"
proof
  assume h: "has_id (fresh_id (issued st)) b"
  from assms obtain j where j: "j \<in> set (issued st)" "has_id j b"
    by (auto simp: store_ok_def list_all_iff list_ex_iff)
  from h j(2) have "fresh_id (issued st) = j" by (rule has_id_unique)
  with j(1) show False using fresh_id_new [of "issued st"] by simp
qed

lemma find_append_new:
  "\<forall>x \<in> set xs. \<not> P x \<Longrightarrow> P a \<Longrightarrow> find P (xs @ [a]) = Some a"
  by (induction xs) auto

lemma has_id_update_id: "has_id i (AList.update ''id'' (JString i) d)"
  by (simp add: has_id_def update_conv')

lemma assign_single: "assign a [(k, v)] = AList.update k v a"
  by (simp add: assign_def)

lemma assign_keeps_id:
  "''id'' \<notin> set (map fst d) \<Longrightarrow> map_of (assign a d) ''id'' = map_of a ''id''"
  unfolding assign_def
  by (induction d arbitrary: a) (auto simp: update_conv')

lemma find_map_assign:
  assumes "find P xs = Some a" and "\<And>x. P x \<Longrightarrow> P (f x)"
  shows "find P (map (\<lambda>x. if P x then f x else x) xs) = Some (f a)"
  using assms(1)
proof (induction xs)
  case Nil
  then show ?case by simp
next
  case (Cons x xs)
  then show ?case using assms(2) by (cases "P x") auto
qed

lemma filter_others_map:
  assumes "\<And>x. P x \<Longrightarrow> P (f x)"
  shows "filter (\<lambda>x. \<not> P x) (map (\<lambda>x. if P x then f x else x) xs) = filter (\<lambda>x. \<not> P x) xs"
  using assms by (induction xs) auto

lemma find_filter_not: "find P (filter (\<lambda>x. \<not> P x) xs) = None"
  by (induction xs) auto

text \<open>The invariant of the store holds initially and is kept by the three writes.\<close>

lemma store_ok_empty: "store_ok \<lparr>stored = [], issued = []\<rparr>"
  by (simp add: store_ok_def)

lemma store_ok_create:
  assumes "store_ok st"
  shows "store_ok \<lparr>stored = stored st @ [AList.update ''id'' (JString (fresh_id (issued st))) d],
                  issued = fresh_id (issued st) # issued st\<rparr>"
  using assms has_id_update_id [of "fresh_id (issued st)" d]
  by (auto simp: store_ok_def list_all_iff list_ex_iff)

lemma store_ok_update:
  assumes "store_ok st" and "''id'' \<notin> set (map fst d)"
  shows "store_ok (st\<lparr>stored := map (\<lambda>x. if has_id i x then assign x d else x) (stored st)\<rparr>)"
proof -
  have "\<And>j x. has_id j x \<Longrightarrow> has_id j (assign x d)"
    using assms(2) by (simp add: has_id_def assign_keeps_id)
  with assms(1) show ?thesis
    unfolding store_ok_def list_all_iff list_ex_iff by fastforce
qed

lemma store_ok_delete:
  assumes "store_ok st"
  shows "store_ok (st\<lparr>stored := filter (\<lambda>a. \<not> has_id i a) (stored st)\<rparr>)"
  using assms by (auto simp: store_ok_def list_all_iff list_ex_iff)

section \<open>Properties of the routes\<close>

subsection \<open>Unknown ids\<close>

text \<open>
  Claim C1.  When the repository's \<^verbatim>\<open>findById\<close> finds no record for the id,
  \<^verbatim>\<open>GET /:id\<close>, \<^verbatim>\<open>PUT /:id\<close> and \<^verbatim>\<open>DELETE /:id\<close> each answer with
  status 404 and the plain text "Article not found".  The lookup is the only repository
  call of the request: neither \<^verbatim>\<open>update\<close> nor \<^verbatim>\<open>delete\<close> is in the call log,
  and the store is the one the request started from.  This holds for every repository.
\<close>

theorem not_found_answers_404:
  assumes "findById r s i = Inr None"
  shows "get_id_handler r i (s, lg) =
           Inr (\<lparr>status = 404, body = Text ''Article not found''\<rparr>, (s, lg @ [FindById i]))
       \<and> put_handler r i d (s, lg) =
           Inr (\<lparr>status = 404, body = Text ''Article not found''\<rparr>, (s, lg @ [FindById i]))
       \<and> delete_handler r i (s, lg) =
           Inr (\<lparr>status = 404, body = Text ''Article not found''\<rparr>, (s, lg @ [FindById i]))"
  using assms
  by (simp add: get_id_handler_def put_handler_def delete_handler_def async_defs c_text_def)

theorem not_found_answers_404_witness:
  "findById mem_repository store_u1 ''b'' = Inr None
   \<and> get_id_handler mem_repository ''b'' (store_u1, []) =
       Inr (\<lparr>status = 404, body = Text ''Article not found''\<rparr>, (store_u1, [FindById ''b'']))
   \<and> put_handler mem_repository ''b'' [(''title'', JString ''T2'')] (store_u1, []) =
       Inr (\<lparr>status = 404, body = Text ''Article not found''\<rparr>, (store_u1, [FindById ''b'']))
   \<and> delete_handler mem_repository ''b'' (store_u1, []) =
       Inr (\<lparr>status = 404, body = Text ''Article not found''\<rparr>, (store_u1, [FindById ''b'']))"
proof -
  have h: "findById mem_repository store_u1 ''b'' = Inr None"
    by (simp add: mem_defs example_defs)
  show ?thesis
    using h not_found_answers_404 [OF h, of "[]" "[(''title'', JString ''T2'')]"] by simp
qed

subsection \<open>Update\<close>

text \<open>
  Claim C2.  \<^verbatim>\<open>PUT /:id\<close> on an existing article answers 200 with
  \<^verbatim>\<open>{ article }\<close>, the record the repository's \<^verbatim>\<open>update\<close> returned, after the
  lookup and the update and no other call (every repository whose two calls resolve).
  With the in-memory repository and a body of one field assignment, the field not being
  \<^verbatim>\<open>id\<close>: the answered record has the field at the new value, every other field
  as in the record found before, the same id; it is the record the store now holds under
  that id, and the articles of other ids are untouched.
\<close>

theorem put_changes_one_field:
  "(findById r s i = Inr (Some a) \<and> update r s i d = Inr (a', s') \<longrightarrow>
      put_handler r i d (s, lg) =
        Inr (\<lparr>status = 200, body = Json (JObject [(''article'', JObject a')])\<rparr>,
             (s', lg @ [FindById i, Update i d])))
   \<and> (findById mem_repository st i = Inr (Some b) \<and> field \<noteq> ''id'' \<longrightarrow>
        (\<exists>b' st'.
           put_handler mem_repository i [(field, v)] (st, lg) =
             Inr (\<lparr>status = 200, body = Json (JObject [(''article'', JObject b')])\<rparr>,
                  (st', lg @ [FindById i, Update i [(field, v)]]))
           \<and> map_of b' field = Some v
           \<and> (\<forall>k. k \<noteq> field \<longrightarrow> map_of b' k = map_of b k)
           \<and> map_of b' ''id'' = Some (JString i)
           \<and> findById mem_repository st' i = Inr (Some b')
           \<and> filter (\<lambda>x. \<not> has_id i x) (stored st') = filter (\<lambda>x. \<not> has_id i x) (stored st)))"
proof (intro conjI impI)
  assume "findById r s i = Inr (Some a) \<and> update r s i d = Inr (a', s')"
  then show "put_handler r i d (s, lg) =
        Inr (\<lparr>status = 200, body = Json (JObject [(''article'', JObject a')])\<rparr>,
             (s', lg @ [FindById i, Update i d]))"
    by (simp add: put_handler_def async_defs reply_defs)
next
  assume h: "findById mem_repository st i = Inr (Some b) \<and> field \<noteq> ''id''"
  let ?f = "\<lambda>x. assign x [(field, v)]"
  let ?b' = "AList.update field v b"
  let ?st' = "st\<lparr>stored := map (\<lambda>x. if has_id i x then ?f x else x) (stored st)\<rparr>"
  from h have fnd: "find (has_id i) (stored st) = Some b" and ne: "field \<noteq> ''id''"
    by (simp_all add: mem_defs)
  from h have idb: "has_id i b" by (auto dest: mem_findById_has_id)
  have keep: "\<And>x. has_id i x \<Longrightarrow> has_id i (?f x)"
    using ne by (simp add: assign_single has_id_def update_conv')
  have run: "put_handler mem_repository i [(field, v)] (st, lg) =
             Inr (\<lparr>status = 200, body = Json (JObject [(''article'', JObject ?b')])\<rparr>,
                  (?st', lg @ [FindById i, Update i [(field, v)]]))"
    using fnd by (simp add: put_handler_def async_defs reply_defs mem_defs assign_single)
  have f1: "map_of ?b' field = Some v" by (simp add: update_conv')
  have f2: "\<forall>k. k \<noteq> field \<longrightarrow> map_of ?b' k = map_of b k" by (simp add: update_conv')
  have f3: "map_of ?b' ''id'' = Some (JString i)"
    using idb ne by (simp add: update_conv' has_id_def)
  have "find (has_id i) (map (\<lambda>x. if has_id i x then ?f x else x) (stored st)) = Some (?f b)"
    using fnd keep by (rule find_map_assign)
  then have f4: "findById mem_repository ?st' i = Inr (Some ?b')"
    by (simp add: mem_defs assign_single)
  have f5: "filter (\<lambda>x. \<not> has_id i x) (stored ?st') = filter (\<lambda>x. \<not> has_id i x) (stored st)"
    using filter_others_map [of "has_id i" ?f "stored st", OF keep] by simp
  from run f1 f2 f3 f4 f5
  show "\<exists>b' st'.
           put_handler mem_repository i [(field, v)] (st, lg) =
             Inr (\<lparr>status = 200, body = Json (JObject [(''article'', JObject b')])\<rparr>,
                  (st', lg @ [FindById i, Update i [(field, v)]]))
           \<and> map_of b' field = Some v
           \<and> (\<forall>k. k \<noteq> field \<longrightarrow> map_of b' k = map_of b k)
           \<and> map_of b' ''id'' = Some (JString i)
           \<and> findById mem_repository st' i = Inr (Some b')
           \<and> filter (\<lambda>x. \<not> has_id i x) (stored st') = filter (\<lambda>x. \<not> has_id i x) (stored st)"
    by blast
qed

theorem put_changes_one_field_witness:
  "findById mem_repository store_u1 ''a'' = Inr (Some article_u1)
   \<and> ''title'' \<noteq> ''id''
   \<and> update mem_repository store_u1 ''a'' [(''title'', JString ''T2'')] =
       Inr ([(''id'', JString ''a''), (''title'', JString ''T2''), (''authorId'', JString ''u1'')],
            \<lparr>stored = [[(''id'', JString ''a''), (''title'', JString ''T2''), (''authorId'', JString ''u1'')]],
             issued = [''a'']\<rparr>)
   \<and> put_handler mem_repository ''a'' [(''title'', JString ''T2'')] (store_u1, []) =
       Inr (\<lparr>status = 200,
             body = Json (JObject [(''article'',
               JObject [(''id'', JString ''a''), (''title'', JString ''T2''), (''authorId'', JString ''u1'')])])\<rparr>,
            (\<lparr>stored = [[(''id'', JString ''a''), (''title'', JString ''T2''), (''authorId'', JString ''u1'')]],
              issued = [''a'']\<rparr>,
             [FindById ''a'', Update ''a'' [(''title'', JString ''T2'')]]))
   \<and> (\<exists>b' st'.
         put_handler mem_repository ''a'' [(''title'', JString ''T2'')] (store_u1, []) =
           Inr (\<lparr>status = 200, body = Json (JObject [(''article'', JObject b')])\<rparr>,
                (st', [FindById ''a'', Update ''a'' [(''title'', JString ''T2'')]]))
         \<and> map_of b' ''title'' = Some (JString ''T2'')
         \<and> (\<forall>k. k \<noteq> ''title'' \<longrightarrow> map_of b' k = map_of article_u1 k)
         \<and> map_of b' ''id'' = Some (JString ''a'')
         \<and> findById mem_repository st' ''a'' = Inr (Some b')
         \<and> filter (\<lambda>x. \<not> has_id ''a'' x) (stored st') = filter (\<lambda>x. \<not> has_id ''a'' x) (stored store_u1))"
proof -
  let ?b2 = "[(''id'', JString ''a''), (''title'', JString ''T2''), (''authorId'', JString ''u1'')]"
  let ?s2 = "\<lparr>stored = [?b2], issued = [''a'']\<rparr>"
  have h: "findById mem_repository store_u1 ''a'' = Inr (Some article_u1)"
    by (simp add: mem_defs example_defs)
  have n: "''title'' \<noteq> ''id''" by simp
  have u: "update mem_repository store_u1 ''a'' [(''title'', JString ''T2'')] = Inr (?b2, ?s2)"
    by (simp add: mem_defs example_defs assign_def)
  note t = put_changes_one_field
    [of mem_repository store_u1 "''a''" article_u1 "[(''title'', JString ''T2'')]" ?b2 ?s2 "[]"
        store_u1 article_u1 "''title''" "JString ''T2''"]
  from t [THEN conjunct1] h u
  have g: "put_handler mem_repository ''a'' [(''title'', JString ''T2'')] (store_u1, []) =
       Inr (\<lparr>status = 200, body = Json (JObject [(''article'', JObject ?b2)])\<rparr>,
            (?s2, [FindById ''a'', Update ''a'' [(''title'', JString ''T2'')]]))"
    by simp
  from t [THEN conjunct2] h n
  have e: "\<exists>b' st'.
         put_handler mem_repository ''a'' [(''title'', JString ''T2'')] (store_u1, []) =
           Inr (\<lparr>status = 200, body = Json (JObject [(''article'', JObject b')])\<rparr>,
                (st', [FindById ''a'', Update ''a'' [(''title'', JString ''T2'')]]))
         \<and> map_of b' ''title'' = Some (JString ''T2'')
         \<and> (\<forall>k. k \<noteq> ''title'' \<longrightarrow> map_of b' k = map_of article_u1 k)
         \<and> map_of b' ''id'' = Some (JString ''a'')
         \<and> findById mem_repository st' ''a'' = Inr (Some b')
         \<and> filter (\<lambda>x. \<not> has_id ''a'' x) (stored st') = filter (\<lambda>x. \<not> has_id ''a'' x) (stored store_u1)"
    by simp
  from h n u g e show ?thesis by blast
qed

subsection \<open>Create\<close>

text \<open>
  Claim C3.  \<^verbatim>\<open>POST /\<close> calls the repository's \<^verbatim>\<open>create\<close> once, with exactly the
  validated body, and answers 200 with \<^verbatim>\<open>{ article }\<close>, the record \<^verbatim>\<open>create\<close>
  returned (every repository whose call resolves).  With the in-memory repository, from a
  store that satisfies its invariant: the answered record is the one the store now holds
  under its id; the id is non-empty, was never issued before and belongs to no article
  stored before; every submitted field has its submitted value.
\<close>

theorem post_creates_article:
  "(create r s d = Inr (a, s') \<longrightarrow>
      post_handler r d (s, lg) =
        Inr (\<lparr>status = 200, body = Json (JObject [(''article'', JObject a)])\<rparr>,
             (s', lg @ [Create d])))
   \<and> (store_ok st \<longrightarrow>
        (\<exists>i b st'.
           post_handler mem_repository d (st, lg) =
             Inr (\<lparr>status = 200, body = Json (JObject [(''article'', JObject b)])\<rparr>,
                  (st', lg @ [Create d]))
           \<and> findById mem_repository st' i = Inr (Some b)
           \<and> map_of b ''id'' = Some (JString i)
           \<and> i \<noteq> []
           \<and> i \<notin> set (issued st)
           \<and> \<not> list_ex (has_id i) (stored st)
           \<and> (\<forall>k. k \<noteq> ''id'' \<longrightarrow> map_of b k = map_of d k)
           \<and> store_ok st'))"
proof (intro conjI impI)
  assume "create r s d = Inr (a, s')"
  then show "post_handler r d (s, lg) =
        Inr (\<lparr>status = 200, body = Json (JObject [(''article'', JObject a)])\<rparr>,
             (s', lg @ [Create d]))"
    by (simp add: post_handler_def async_defs reply_defs)
next
  assume ok: "store_ok st"
  let ?i = "fresh_id (issued st)"
  let ?b = "AList.update ''id'' (JString ?i) d"
  let ?st' = "\<lparr>stored = stored st @ [?b], issued = ?i # issued st\<rparr>"
  have run: "post_handler mem_repository d (st, lg) =
             Inr (\<lparr>status = 200, body = Json (JObject [(''article'', JObject ?b)])\<rparr>,
                  (?st', lg @ [Create d]))"
    by (simp add: post_handler_def async_defs reply_defs mem_defs Let_def)
  have others: "\<forall>x \<in> set (stored st). \<not> has_id ?i x"
    using ok by (auto dest: store_ok_fresh)
  have "find (has_id ?i) (stored st @ [?b]) = Some ?b"
    using others has_id_update_id by (rule find_append_new)
  then have f1: "findById mem_repository ?st' ?i = Inr (Some ?b)"
    by (simp add: mem_defs)
  have f2: "map_of ?b ''id'' = Some (JString ?i)" by (simp add: update_conv')
  have f3: "?i \<noteq> []" by (rule fresh_id_nonempty)
  have f4: "?i \<notin> set (issued st)" by (rule fresh_id_new)
  have f5: "\<not> list_ex (has_id ?i) (stored st)"
    using others by (simp add: list_ex_iff)
  have f6: "\<forall>k. k \<noteq> ''id'' \<longrightarrow> map_of ?b k = map_of d k" by (simp add: update_conv')
  have f7: "store_ok ?st'" using ok by (rule store_ok_create)
  from run f1 f2 f3 f4 f5 f6 f7
  show "\<exists>i b st'.
           post_handler mem_repository d (st, lg) =
             Inr (\<lparr>status = 200, body = Json (JObject [(''article'', JObject b)])\<rparr>,
                  (st', lg @ [Create d]))
           \<and> findById mem_repository st' i = Inr (Some b)
           \<and> map_of b ''id'' = Some (JString i)
           \<and> i \<noteq> []
           \<and> i \<notin> set (issued st)
           \<and> \<not> list_ex (has_id i) (stored st)
           \<and> (\<forall>k. k \<noteq> ''id'' \<longrightarrow> map_of b k = map_of d k)
           \<and> store_ok st'"
    by blast
qed

theorem post_creates_article_witness:
  "create mem_repository store_u1 [(''title'', JString ''U''), (''authorId'', JString ''u2'')] =
       Inr ([(''title'', JString ''U''), (''authorId'', JString ''u2''), (''id'', JString ''aa'')],
            \<lparr>stored = [article_u1,
               [(''title'', JString ''U''), (''authorId'', JString ''u2''), (''id'', JString ''aa'')]],
             issued = [''aa'', ''a'']\<rparr>)
   \<and> post_handler mem_repository [(''title'', JString ''U''), (''authorId'', JString ''u2'')] (store_u1, []) =
       Inr (\<lparr>status = 200,
             body = Json (JObject [(''article'',
               JObject [(''title'', JString ''U''), (''authorId'', JString ''u2''), (''id'', JString ''aa'')])])\<rparr>,
            (\<lparr>stored = [article_u1,
               [(''title'', JString ''U''), (''authorId'', JString ''u2''), (''id'', JString ''aa'')]],
              issued = [''aa'', ''a'']\<rparr>,
             [Create [(''title'', JString ''U''), (''authorId'', JString ''u2'')]]))
   \<and> store_ok store_u1
   \<and> (\<exists>i b st'.
         post_handler mem_repository [(''title'', JString ''U''), (''authorId'', JString ''u2'')] (store_u1, []) =
           Inr (\<lparr>status = 200, body = Json (JObject [(''article'', JObject b)])\<rparr>,
                (st', [Create [(''title'', JString ''U''), (''authorId'', JString ''u2'')]]))
         \<and> findById mem_repository st' i = Inr (Some b)
         \<and> map_of b ''id'' = Some (JString i)
         \<and> i \<noteq> []
         \<and> i \<notin> set (issued store_u1)
         \<and> \<not> list_ex (has_id i) (stored store_u1)
         \<and> (\<forall>k. k \<noteq> ''id'' \<longrightarrow>
               map_of b k = map_of [(''title'', JString ''U''), (''authorId'', JString ''u2'')] k)
         \<and> store_ok st')"
proof -
  let ?d = "[(''title'', JString ''U''), (''authorId'', JString ''u2'')]"
  let ?b = "[(''title'', JString ''U''), (''authorId'', JString ''u2''), (''id'', JString ''aa'')]"
  let ?s = "\<lparr>stored = [article_u1, ?b], issued = [''aa'', ''a'']\<rparr>"
  have c: "create mem_repository store_u1 ?d = Inr (?b, ?s)"
    by (simp add: mem_defs store_u1_def fresh_id_def Let_def)
  have ok: "store_ok store_u1"
    by (simp add: store_ok_def example_defs)
  note t = post_creates_article [of mem_repository store_u1 ?d ?b ?s "[]" store_u1]
  from t [THEN conjunct1] c
  have g: "post_handler mem_repository ?d (store_u1, []) =
       Inr (\<lparr>status = 200, body = Json (JObject [(''article'', JObject ?b)])\<rparr>, (?s, [Create ?d]))"
    by simp
  from t [THEN conjunct2] ok
  have e: "\<exists>i b st'.
         post_handler mem_repository ?d (store_u1, []) =
           Inr (\<lparr>status = 200, body = Json (JObject [(''article'', JObject b)])\<rparr>,
                (st', [Create ?d]))
         \<and> findById mem_repository st' i = Inr (Some b)
         \<and> map_of b ''id'' = Some (JString i)
         \<and> i \<noteq> []
         \<and> i \<notin> set (issued store_u1)
         \<and> \<not> list_ex (has_id i) (stored store_u1)
         \<and> (\<forall>k. k \<noteq> ''id'' \<longrightarrow> map_of b k = map_of ?d k)
         \<and> store_ok st'"
    by simp
  from c g ok e show ?thesis by blast
qed

subsection \<open>Read by id\<close>

text \<open>
  Claim C4.  When the repository's \<^verbatim>\<open>findById\<close> yields an article for the id,
  \<^verbatim>\<open>GET /:id\<close> answers 200 with \<^verbatim>\<open>{ article }\<close>, the article being that
  record, after the lookup and no other call (every repository).  That the record's
  \<^verbatim>\<open>id\<close> is the requested one is the lookup's part: the in-memory repository only
  yields a record that carries the id asked for.
\<close>

theorem get_by_id_answers_article:
  "(findById r s i = Inr (Some a) \<longrightarrow>
      get_id_handler r i (s, lg) =
        Inr (\<lparr>status = 200, body = Json (JObject [(''article'', JObject a)])\<rparr>,
             (s, lg @ [FindById i])))
   \<and> (findById mem_repository st i = Inr (Some b) \<longrightarrow> map_of b ''id'' = Some (JString i))"
proof (intro conjI impI)
  assume "findById r s i = Inr (Some a)"
  then show "get_id_handler r i (s, lg) =
        Inr (\<lparr>status = 200, body = Json (JObject [(''article'', JObject a)])\<rparr>,
             (s, lg @ [FindById i]))"
    by (simp add: get_id_handler_def async_defs reply_defs)
next
  assume "findById mem_repository st i = Inr (Some b)"
  then have "has_id i b" by (rule mem_findById_has_id)
  then show "map_of b ''id'' = Some (JString i)" by (simp add: has_id_def)
qed

theorem get_by_id_answers_article_witness:
  "findById mem_repository store_u1 ''a'' = Inr (Some article_u1)
   \<and> get_id_handler mem_repository ''a'' (store_u1, []) =
        Inr (\<lparr>status = 200, body = Json (JObject [(''article'', JObject article_u1)])\<rparr>,
             (store_u1, [FindById ''a'']))
   \<and> map_of article_u1 ''id'' = Some (JString ''a'')"
proof -
  have h: "findById mem_repository store_u1 ''a'' = Inr (Some article_u1)"
    by (simp add: mem_defs example_defs)
  show ?thesis
    using h get_by_id_answers_article
      [of mem_repository store_u1 "''a''" article_u1 "[]" store_u1 article_u1]
    by simp
qed

subsection \<open>List and filter\<close>

text \<open>
  Claim C5, as amended.  \<^verbatim>\<open>GET /\<close> with a query whose \<^verbatim>\<open>authorId\<close> is provided
  and is not the empty string answers with the result of the repository's
  \<^verbatim>\<open>findByAuthorId\<close> for that author; with no \<^verbatim>\<open>authorId\<close> it answers with the
  result of \<^verbatim>\<open>findAll\<close>.  Either way the answer is 200 with
  \<^verbatim>\<open>{ articles: [...] }\<close>, whatever the sequence, the empty one included, and the
  lookup is the only repository call (every repository whose call resolves).
\<close>

theorem list_dispatch:
  "(author_of query = Some au \<and> au \<noteq> [] \<and> findByAuthorId r s au = Inr articles \<longrightarrow>
      get_handler r query (s, lg) =
        Inr (\<lparr>status = 200, body = Json (JObject [(''articles'', JArray (map JObject articles))])\<rparr>,
             (s, lg @ [FindByAuthorId au])))
   \<and> (author_of query = None \<and> findAll r s = Inr articles \<longrightarrow>
      get_handler r query (s, lg) =
        Inr (\<lparr>status = 200, body = Json (JObject [(''articles'', JArray (map JObject articles))])\<rparr>,
             (s, lg @ [FindAll])))"
  by (simp add: get_handler_def truthy_def async_defs reply_defs)

theorem list_dispatch_witness:
  "author_of (Some \<lparr>authorId = Some ''u2''\<rparr>) = Some ''u2'' \<and> ''u2'' \<noteq> []
   \<and> findByAuthorId mem_repository store_u1 ''u2'' = Inr []
   \<and> get_handler mem_repository (Some \<lparr>authorId = Some ''u2''\<rparr>) (store_u1, []) =
        Inr (\<lparr>status = 200, body = Json (JObject [(''articles'', JArray [])])\<rparr>,
             (store_u1, [FindByAuthorId ''u2'']))
   \<and> author_of None = None
   \<and> findAll mem_repository store_u1 = Inr [article_u1]
   \<and> get_handler mem_repository None (store_u1, []) =
        Inr (\<lparr>status = 200, body = Json (JObject [(''articles'', JArray [JObject article_u1])])\<rparr>,
             (store_u1, [FindAll]))"
proof -
  have a: "author_of (Some \<lparr>authorId = Some ''u2''\<rparr>) = Some ''u2''"
    and b: "author_of None = None"
    by (simp_all add: author_of_def)
  have c: "findByAuthorId mem_repository store_u1 ''u2'' = Inr []"
    and d: "findAll mem_repository store_u1 = Inr [article_u1]"
    by (simp_all add: mem_defs example_defs)
  show ?thesis
    using a b c d
      list_dispatch [of "Some \<lparr>authorId = Some ''u2''\<rparr>" "''u2''" mem_repository store_u1 "[]" "[]"]
      list_dispatch [of None "''u2''" mem_repository store_u1 "[article_u1]" "[]"]
    by simp
qed

text \<open>
  Claim C5 as it was stated fails at the query \<^verbatim>\<open>?authorId=\<close>: the field is provided,
  as the empty string, \<^verbatim>\<open>findByAuthorId('')\<close> would yield no article of the example
  store, and the handler calls \<^verbatim>\<open>findAll\<close> and answers with the store's article.
\<close>

theorem list_empty_author_counterexample:
  "author_of (Some \<lparr>authorId = Some ''''\<rparr>) = Some ''''
   \<and> findByAuthorId mem_repository store_u1 '''' = Inr []
   \<and> get_handler mem_repository (Some \<lparr>authorId = Some ''''\<rparr>) (store_u1, []) =
        Inr (\<lparr>status = 200, body = Json (JObject [(''articles'', JArray [JObject article_u1])])\<rparr>,
             (store_u1, [FindAll]))
   \<and> get_handler mem_repository (Some \<lparr>authorId = Some ''''\<rparr>) (store_u1, []) \<noteq>
        Inr (\<lparr>status = 200, body = Json (JObject [(''articles'', JArray [])])\<rparr>,
             (store_u1, [FindByAuthorId '''']))"
  by (simp add: get_handler_def author_of_def truthy_def async_defs reply_defs mem_defs example_defs)

subsection \<open>Delete\<close>

text \<open>
  Claim C6.  When the repository's \<^verbatim>\<open>findById\<close> yields an article for the id and its
  \<^verbatim>\<open>delete\<close> resolves, \<^verbatim>\<open>DELETE /:id\<close> calls \<^verbatim>\<open>delete\<close> with that id after
  the lookup, and then answers 200 with
  \<^verbatim>\<open>{ message: "Article deleted successfully" }\<close>, leaving the store
  \<^verbatim>\<open>delete\<close> left (every repository).
\<close>

theorem delete_existing:
  assumes "findById r s i = Inr (Some a)" and "delete r s i = Inr s'"
  shows "delete_handler r i (s, lg) =
           Inr (\<lparr>status = 200,
                 body = Json (JObject [(''message'', JString ''Article deleted successfully'')])\<rparr>,
                (s', lg @ [FindById i, Delete i]))"
  using assms by (simp add: delete_handler_def async_defs reply_defs)

theorem delete_existing_witness:
  "findById mem_repository store_u1 ''a'' = Inr (Some article_u1)
   \<and> delete mem_repository store_u1 ''a'' = Inr \<lparr>stored = [], issued = [''a'']\<rparr>
   \<and> delete_handler mem_repository ''a'' (store_u1, []) =
           Inr (\<lparr>status = 200,
                 body = Json (JObject [(''message'', JString ''Article deleted successfully'')])\<rparr>,
                (\<lparr>stored = [], issued = [''a'']\<rparr>, [FindById ''a'', Delete ''a'']))"
proof -
  have h: "findById mem_repository store_u1 ''a'' = Inr (Some article_u1)"
    and d: "delete mem_repository store_u1 ''a'' = Inr \<lparr>stored = [], issued = [''a'']\<rparr>"
    by (simp_all add: mem_defs example_defs)
  show ?thesis
    using h d delete_existing [OF h d, of "[]"] by simp
qed

subsection \<open>The id is not client input\<close>

text \<open>
  Claim C7.  The create shape has the fields of the article shape but \<^verbatim>\<open>id\<close>; the
  update shape has the same fields, all optional.  Whatever the raw body of a
  \<^verbatim>\<open>POST /\<close> or \<^verbatim>\<open>PUT /:id\<close> request holds, an \<^verbatim>\<open>id\<close> of the client's
  included, no repository call of the request hands over an object with an \<^verbatim>\<open>id\<close>
  key (every article shape, every repository).  With the in-memory repository, the
  created article carries the id the store issued, and the article answered by a
  successful update carries the id of the path and is the record stored under it.
\<close>

theorem client_id_never_reaches_repository:
  "set (map fst (entries (ArticleWithoutIdSchema A))) = set (map fst (entries A)) - {''id''}
   \<and> set (map fst (entries (v_partial (ArticleWithoutIdSchema A)))) = set (map fst (entries A)) - {''id''}
   \<and> list_all (\<lambda>(k, f). optional f) (entries (v_partial (ArticleWithoutIdSchema A)))
   \<and> (post_route A r raw (s, []) = Inr (out, (s', lg)) \<longrightarrow> \<not> list_ex carries_id lg)
   \<and> (put_route A r i raw (s, []) = Inr (out, (s', lg)) \<longrightarrow> \<not> list_ex carries_id lg)
   \<and> (post_route A mem_repository raw (st, []) = Inr (Handled resp, (st', lg)) \<longrightarrow>
        (\<exists>b. body resp = Json (JObject [(''article'', JObject b)])
             \<and> has_id (fresh_id (issued st)) b))
   \<and> (put_route A mem_repository i raw (st, []) = Inr (Handled resp, (st', lg))
        \<and> status resp = 200 \<longrightarrow>
        (\<exists>b. body resp = Json (JObject [(''article'', JObject b)])
             \<and> has_id i b
             \<and> findById mem_repository st' i = Inr (Some b)))"
proof (intro conjI impI)
  show "set (map fst (entries (ArticleWithoutIdSchema A))) = set (map fst (entries A)) - {''id''}"
    by (rule without_id_keys)
  show "set (map fst (entries (v_partial (ArticleWithoutIdSchema A)))) = set (map fst (entries A)) - {''id''}"
    unfolding partial_keys by (rule without_id_keys)
  show "list_all (\<lambda>(k, f). optional f) (entries (v_partial (ArticleWithoutIdSchema A)))"
    by (rule partial_optional)
next
  assume "post_route A r raw (s, []) = Inr (out, (s', lg))"
  then consider "lg = []"
    | d resp where "v_parse (ArticleWithoutIdSchema A) raw = Some d"
        "post_handler r d (s, []) = Inr (resp, (s', lg))"
    unfolding post_route_def by (auto dest!: vValidator_handled)
  then show "\<not> list_ex carries_id lg"
  proof cases
    case 1
    then show ?thesis by simp
  next
    case 2
    from 2(2) have "lg = [Create d]" by (rule post_handler_log)
    moreover from 2(1) have "''id'' \<notin> set (map fst d)"
      using route_data_without_id by blast
    ultimately show ?thesis by simp
  qed
next
  assume "put_route A r i raw (s, []) = Inr (out, (s', lg))"
  then consider "lg = []"
    | d resp where "v_parse (v_partial (ArticleWithoutIdSchema A)) raw = Some d"
        "put_handler r i d (s, []) = Inr (resp, (s', lg))"
    unfolding put_route_def by (auto dest!: vValidator_handled)
  then show "\<not> list_ex carries_id lg"
  proof cases
    case 1
    then show ?thesis by simp
  next
    case 2
    from 2(2) have "lg = [FindById i] \<or> lg = [FindById i, Update i d]"
      by (rule put_handler_log)
    moreover from 2(1) have "''id'' \<notin> set (map fst d)"
      using route_data_without_id by blast
    ultimately show ?thesis by auto
  qed
next
  assume "post_route A mem_repository raw (st, []) = Inr (Handled resp, (st', lg))"
  then obtain d where "post_handler mem_repository d (st, []) = Inr (resp, (st', lg))"
    unfolding post_route_def by (auto dest!: vValidator_handled)
  then have "resp = \<lparr>status = 200, body = Json (JObject [(''article'',
      JObject (AList.update ''id'' (JString (fresh_id (issued st))) d))])\<rparr>"
    by (simp add: post_handler_def async_defs reply_defs mem_defs Let_def)
  then show "\<exists>b. body resp = Json (JObject [(''article'', JObject b)])
             \<and> has_id (fresh_id (issued st)) b"
    using has_id_update_id by simp
next
  assume a: "put_route A mem_repository i raw (st, []) = Inr (Handled resp, (st', lg))
        \<and> status resp = 200"
  then obtain d where d: "v_parse (v_partial (ArticleWithoutIdSchema A)) raw = Some d"
    and run: "put_handler mem_repository i d (st, []) = Inr (resp, (st', lg))"
    unfolding put_route_def by (auto dest!: vValidator_handled)
  from d have noid: "''id'' \<notin> set (map fst d)"
    using route_data_without_id by blast
  have keep: "\<And>x. has_id i x \<Longrightarrow> has_id i (assign x d)"
    using noid by (simp add: has_id_def assign_keeps_id)
  show "\<exists>b. body resp = Json (JObject [(''article'', JObject b)])
             \<and> has_id i b
             \<and> findById mem_repository st' i = Inr (Some b)"
  proof (cases "find (has_id i) (stored st)")
    case None
    with run have "status resp = 404"
      by (auto simp: put_handler_def async_defs reply_defs mem_defs)
    with a show ?thesis by simp
  next
    case (Some b)
    then have hb: "has_id i b" by (auto simp: find_Some_iff)
    from Some run
    have resp: "resp = \<lparr>status = 200, body = Json (JObject [(''article'', JObject (assign b d))])\<rparr>"
      and st': "st' = st\<lparr>stored := map (\<lambda>x. if has_id i x then assign x d else x) (stored st)\<rparr>"
      by (auto simp: put_handler_def async_defs reply_defs mem_defs)
    have "find (has_id i) (map (\<lambda>x. if has_id i x then assign x d else x) (stored st)) = Some (assign b d)"
      using Some keep by (rule find_map_assign)
    with st' have "findById mem_repository st' i = Inr (Some (assign b d))"
      by (simp add: mem_defs)
    with resp keep [OF hb] show ?thesis by simp
  qed
qed

theorem client_id_never_reaches_repository_witness:
  "post_route ArticleSchema_example mem_repository
      (JObject [(''id'', JString ''zz''), (''title'', JString ''U''), (''authorId'', JString ''u2'')])
      (store_u1, []) =
     Inr (Handled \<lparr>status = 200, body = Json (JObject [(''article'',
            JObject [(''title'', JString ''U''), (''authorId'', JString ''u2''), (''id'', JString ''aa'')])])\<rparr>,
          (\<lparr>stored = [article_u1,
              [(''title'', JString ''U''), (''authorId'', JString ''u2''), (''id'', JString ''aa'')]],
            issued = [''aa'', ''a'']\<rparr>,
           [Create [(''title'', JString ''U''), (''authorId'', JString ''u2'')]]))
   \<and> \<not> list_ex carries_id [Create [(''title'', JString ''U''), (''authorId'', JString ''u2'')]]
   \<and> put_route ArticleSchema_example mem_repository ''a''
      (JObject [(''id'', JString ''zz''), (''title'', JString ''T2'')]) (store_u1, []) =
     Inr (Handled \<lparr>status = 200, body = Json (JObject [(''article'',
            JObject [(''id'', JString ''a''), (''title'', JString ''T2''), (''authorId'', JString ''u1'')])])\<rparr>,
          (\<lparr>stored = [[(''id'', JString ''a''), (''title'', JString ''T2''), (''authorId'', JString ''u1'')]],
            issued = [''a'']\<rparr>,
           [FindById ''a'', Update ''a'' [(''title'', JString ''T2'')]]))
   \<and> \<not> list_ex carries_id [FindById ''a'', Update ''a'' [(''title'', JString ''T2'')]]
   \<and> (\<exists>b. body \<lparr>status = 200, body = Json (JObject [(''article'',
            JObject [(''title'', JString ''U''), (''authorId'', JString ''u2''), (''id'', JString ''aa'')])])\<rparr>
           = Json (JObject [(''article'', JObject b)])
         \<and> has_id (fresh_id (issued store_u1)) b)
   \<and> (\<exists>b. body \<lparr>status = 200, body = Json (JObject [(''article'',
            JObject [(''id'', JString ''a''), (''title'', JString ''T2''), (''authorId'', JString ''u1'')])])\<rparr>
           = Json (JObject [(''article'', JObject b)])
         \<and> has_id ''a'' b
         \<and> findById mem_repository
              \<lparr>stored = [[(''id'', JString ''a''), (''title'', JString ''T2''), (''authorId'', JString ''u1'')]],
               issued = [''a'']\<rparr> ''a'' = Inr (Some b))"
proof -
  let ?raw1 = "JObject [(''id'', JString ''zz''), (''title'', JString ''U''), (''authorId'', JString ''u2'')]"
  let ?d1 = "[(''title'', JString ''U''), (''authorId'', JString ''u2'')]"
  let ?b1 = "[(''title'', JString ''U''), (''authorId'', JString ''u2''), (''id'', JString ''aa'')]"
  let ?r1 = "\<lparr>status = 200, body = Json (JObject [(''article'', JObject ?b1)])\<rparr>"
  let ?s1 = "\<lparr>stored = [article_u1, ?b1], issued = [''aa'', ''a'']\<rparr>"
  let ?raw2 = "JObject [(''id'', JString ''zz''), (''title'', JString ''T2'')]"
  let ?d2 = "[(''title'', JString ''T2'')]"
  let ?b2 = "[(''id'', JString ''a''), (''title'', JString ''T2''), (''authorId'', JString ''u1'')]"
  let ?r2 = "\<lparr>status = 200, body = Json (JObject [(''article'', JObject ?b2)])\<rparr>"
  let ?s2 = "\<lparr>stored = [?b2], issued = [''a'']\<rparr>"
  have p1: "v_parse (ArticleWithoutIdSchema ArticleSchema_example) ?raw1 = Some ?d1"
    by (simp add: v_parse_def ArticleWithoutIdSchema_def v_omit_def ArticleSchema_example_def v_string_def)
  have p2: "v_parse (v_partial (ArticleWithoutIdSchema ArticleSchema_example)) ?raw2 = Some ?d2"
    by (simp add: v_parse_def v_partial_def ArticleWithoutIdSchema_def v_omit_def
        ArticleSchema_example_def v_string_def)
  have h1: "post_handler mem_repository ?d1 (store_u1, []) = Inr (?r1, (?s1, [Create ?d1]))"
    by (simp add: post_handler_def async_defs reply_defs mem_defs store_u1_def fresh_id_def Let_def)
  have h2: "put_handler mem_repository ''a'' ?d2 (store_u1, []) =
      Inr (?r2, (?s2, [FindById ''a'', Update ''a'' ?d2]))"
    by (simp add: put_handler_def async_defs reply_defs mem_defs example_defs assign_def)
  have post: "post_route ArticleSchema_example mem_repository ?raw1 (store_u1, []) =
      Inr (Handled ?r1, (?s1, [Create ?d1]))"
    using p1 h1 by (simp add: post_route_def vValidator_def await_def resolve_def)
  have put: "put_route ArticleSchema_example mem_repository ''a'' ?raw2 (store_u1, []) =
      Inr (Handled ?r2, (?s2, [FindById ''a'', Update ''a'' ?d2]))"
    using p2 h2 by (simp add: put_route_def vValidator_def await_def resolve_def)
  note t1 = client_id_never_reaches_repository
    [of ArticleSchema_example mem_repository ?raw1 store_u1 "Handled ?r1" ?s1 "[Create ?d1]"
        "''a''" store_u1 ?r1 ?s1]
  note t2 = client_id_never_reaches_repository
    [of ArticleSchema_example mem_repository ?raw2 store_u1 "Handled ?r2" ?s2
        "[FindById ''a'', Update ''a'' ?d2]" "''a''" store_u1 ?r2 ?s2]
  from t1 post have c1: "\<not> list_ex carries_id [Create ?d1]" by blast
  from t2 put have c2: "\<not> list_ex carries_id [FindById ''a'', Update ''a'' ?d2]" by blast
  from t1 post have e1: "\<exists>b. body ?r1 = Json (JObject [(''article'', JObject b)])
         \<and> has_id (fresh_id (issued store_u1)) b" by blast
  have "status ?r2 = 200" by simp
  with t2 put have e2: "\<exists>b. body ?r2 = Json (JObject [(''article'', JObject b)])
         \<and> has_id ''a'' b \<and> findById mem_repository ?s2 ''a'' = Inr (Some b)" by blast
  from post c1 put c2 e1 e2 show ?thesis by blast
qed

subsection \<open>The author filter and the full list\<close>

text \<open>
  Claim C8, as amended.  With the in-memory repository, for every store and every author
  identifier that is not the empty string: \<^verbatim>\<open>GET /\<close> answers 200 with all stored
  articles, and \<^verbatim>\<open>GET /?authorId=A\<close> answers 200 with exactly those of them whose
  author is \<open>A\<close>, in the same order; when there is none, the answer is 200 with the empty
  list.
\<close>

theorem author_filter_is_subset:
  assumes "author_of query = Some au" and "au \<noteq> []"
  shows "get_handler mem_repository None (st, lg) =
           Inr (\<lparr>status = 200, body = Json (JObject [(''articles'', JArray (map JObject (stored st)))])\<rparr>,
                (st, lg @ [FindAll]))
       \<and> get_handler mem_repository query (st, lg) =
           Inr (\<lparr>status = 200,
                 body = Json (JObject [(''articles'',
                   JArray (map JObject (filter (written_by au) (stored st))))])\<rparr>,
                (st, lg @ [FindByAuthorId au]))
       \<and> (\<not> list_ex (written_by au) (stored st) \<longrightarrow>
            get_handler mem_repository query (st, lg) =
              Inr (\<lparr>status = 200, body = Json (JObject [(''articles'', JArray [])])\<rparr>,
                   (st, lg @ [FindByAuthorId au])))"
proof -
  have e: "\<not> list_ex (written_by au) (stored st) \<Longrightarrow> filter (written_by au) (stored st) = []"
    by (auto simp: list_ex_iff filter_empty_conv)
  show ?thesis
    using assms e
    by (auto simp: get_handler_def author_of_def truthy_def async_defs reply_defs mem_defs)
qed

theorem author_filter_is_subset_witness:
  "author_of (Some \<lparr>authorId = Some ''u1''\<rparr>) = Some ''u1'' \<and> ''u1'' \<noteq> []
   \<and> get_handler mem_repository None (store_two, []) =
       Inr (\<lparr>status = 200,
             body = Json (JObject [(''articles'', JArray [JObject article_u1, JObject article_u2])])\<rparr>,
            (store_two, [FindAll]))
   \<and> get_handler mem_repository (Some \<lparr>authorId = Some ''u1''\<rparr>) (store_two, []) =
       Inr (\<lparr>status = 200, body = Json (JObject [(''articles'', JArray [JObject article_u1])])\<rparr>,
            (store_two, [FindByAuthorId ''u1'']))
   \<and> author_of (Some \<lparr>authorId = Some ''u3''\<rparr>) = Some ''u3'' \<and> ''u3'' \<noteq> []
   \<and> \<not> list_ex (written_by ''u3'') (stored store_two)
   \<and> get_handler mem_repository (Some \<lparr>authorId = Some ''u3''\<rparr>) (store_two, []) =
       Inr (\<lparr>status = 200, body = Json (JObject [(''articles'', JArray [])])\<rparr>,
            (store_two, [FindByAuthorId ''u3'']))"
proof -
  have a1: "author_of (Some \<lparr>authorId = Some ''u1''\<rparr>) = Some ''u1''"
    and a3: "author_of (Some \<lparr>authorId = Some ''u3''\<rparr>) = Some ''u3''"
    by (simp_all add: author_of_def)
  have n1: "''u1'' \<noteq> []" and n3: "''u3'' \<noteq> []" by simp_all
  have st: "stored store_two = [article_u1, article_u2]" by (simp add: store_two_def)
  have f1: "filter (written_by ''u1'') [article_u1, article_u2] = [article_u1]"
    by (simp add: example_defs)
  have e3: "\<not> list_ex (written_by ''u3'') (stored store_two)"
    by (simp add: example_defs)
  note t1 = author_filter_is_subset [OF a1 n1, of store_two "[]"]
  note t3 = author_filter_is_subset [OF a3 n3, of store_two "[]"]
  from t1 st f1
  have g1: "get_handler mem_repository None (store_two, []) =
       Inr (\<lparr>status = 200,
             body = Json (JObject [(''articles'', JArray [JObject article_u1, JObject article_u2])])\<rparr>,
            (store_two, [FindAll]))"
    and g2: "get_handler mem_repository (Some \<lparr>authorId = Some ''u1''\<rparr>) (store_two, []) =
       Inr (\<lparr>status = 200, body = Json (JObject [(''articles'', JArray [JObject article_u1])])\<rparr>,
            (store_two, [FindByAuthorId ''u1'']))"
    by simp_all
  from t3 [THEN conjunct2, THEN conjunct2, THEN mp, OF e3]
  have g3: "get_handler mem_repository (Some \<lparr>authorId = Some ''u3''\<rparr>) (store_two, []) =
       Inr (\<lparr>status = 200, body = Json (JObject [(''articles'', JArray [])])\<rparr>,
            (store_two, [FindByAuthorId ''u3'']))"
    by simp
  from a1 n1 g1 g2 a3 n3 e3 g3 show ?thesis by blast
qed

text \<open>
  Claim C8 as it was stated fails at the author identifier \<^verbatim>\<open>''\<close>: on the example
  store \<^verbatim>\<open>GET /?authorId=\<close> answers with the same list as \<^verbatim>\<open>GET /\<close>, one article
  by \<^verbatim>\<open>u1\<close>, while no article of that list has the empty string as its author.
\<close>

theorem author_filter_empty_counterexample:
  "get_handler mem_repository None (store_u1, []) =
       Inr (\<lparr>status = 200, body = Json (JObject [(''articles'', JArray [JObject article_u1])])\<rparr>,
            (store_u1, [FindAll]))
   \<and> get_handler mem_repository (Some \<lparr>authorId = Some ''''\<rparr>) (store_u1, []) =
       Inr (\<lparr>status = 200, body = Json (JObject [(''articles'', JArray [JObject article_u1])])\<rparr>,
            (store_u1, [FindAll]))
   \<and> filter (written_by '''') [article_u1] = []
   \<and> [article_u1] \<noteq> filter (written_by '''') [article_u1]"
  by (simp add: get_handler_def author_of_def truthy_def async_defs reply_defs mem_defs example_defs)

subsection \<open>Delete, then read\<close>

text \<open>
  Claim C9.  With the in-memory repository: when \<^verbatim>\<open>DELETE /:id\<close> has answered 200,
  \<^verbatim>\<open>GET /:id\<close> for the same id, run next on the store and log the delete left,
  answers 404 with the plain text "Article not found".
\<close>

theorem delete_then_get:
  assumes "delete_handler mem_repository i (st, lg) = Inr (resp, (st', lg'))"
    and "status resp = 200"
  shows "get_id_handler mem_repository i (st', lg') =
           Inr (\<lparr>status = 404, body = Text ''Article not found''\<rparr>, (st', lg' @ [FindById i]))"
proof (cases "find (has_id i) (stored st)")
  case None
  with assms(1) have "resp = \<lparr>status = 404, body = Text ''Article not found''\<rparr>"
    by (auto simp: delete_handler_def async_defs reply_defs mem_defs)
  with assms(2) show ?thesis by simp
next
  case (Some a)
  with assms(1) have "st' = st\<lparr>stored := filter (\<lambda>x. \<not> has_id i x) (stored st)\<rparr>"
    by (auto simp: delete_handler_def async_defs reply_defs mem_defs)
  then have "findById mem_repository st' i = Inr None"
    by (simp add: mem_defs find_filter_not)
  then show ?thesis
    by (simp add: get_id_handler_def async_defs reply_defs)
qed

theorem delete_then_get_witness:
  "delete_handler mem_repository ''a'' (store_u1, []) =
       Inr (\<lparr>status = 200,
             body = Json (JObject [(''message'', JString ''Article deleted successfully'')])\<rparr>,
            (\<lparr>stored = [], issued = [''a'']\<rparr>, [FindById ''a'', Delete ''a'']))
   \<and> get_id_handler mem_repository ''a'' (\<lparr>stored = [], issued = [''a'']\<rparr>, [FindById ''a'', Delete ''a'']) =
       Inr (\<lparr>status = 404, body = Text ''Article not found''\<rparr>,
            (\<lparr>stored = [], issued = [''a'']\<rparr>, [FindById ''a'', Delete ''a'', FindById ''a'']))"
proof -
  have d: "delete_handler mem_repository ''a'' (store_u1, []) =
       Inr (\<lparr>status = 200,
             body = Json (JObject [(''message'', JString ''Article deleted successfully'')])\<rparr>,
            (\<lparr>stored = [], issued = [''a'']\<rparr>, [FindById ''a'', Delete ''a'']))"
    by (simp add: delete_handler_def async_defs reply_defs mem_defs example_defs)
  have s: "status \<lparr>status = 200,
             body = Json (JObject [(''message'', JString ''Article deleted successfully'')])\<rparr> = 200"
    by simp
  from d delete_then_get [OF d s] show ?thesis by simp
qed

subsection \<open>The empty author string\<close>

text \<open>
  Claim C10.  When the query supplies \<^verbatim>\<open>authorId\<close> as the empty string, the
  truthiness test takes the unfiltered branch: the handler behaves as it does with no
  \<^verbatim>\<open>authorId\<close> at all, calls \<^verbatim>\<open>findAll\<close> and not \<^verbatim>\<open>findByAuthorId\<close>, and
  answers 200 with the result of \<^verbatim>\<open>findAll\<close> (every repository).
\<close>

theorem empty_author_lists_all:
  assumes "author_of query = Some []"
  shows "get_handler r query \<sigma> = get_handler r None \<sigma>
       \<and> (findAll r s = Inr articles \<longrightarrow>
            get_handler r query (s, lg) =
              Inr (\<lparr>status = 200, body = Json (JObject [(''articles'', JArray (map JObject articles))])\<rparr>,
                   (s, lg @ [FindAll])))"
  using assms by (simp add: get_handler_def author_of_def truthy_def async_defs reply_defs)

theorem empty_author_lists_all_witness:
  "author_of (Some \<lparr>authorId = Some ''''\<rparr>) = Some []
   \<and> get_handler mem_repository (Some \<lparr>authorId = Some ''''\<rparr>) (store_u1, []) =
       get_handler mem_repository None (store_u1, [])
   \<and> findAll mem_repository store_u1 = Inr [article_u1]
   \<and> get_handler mem_repository (Some \<lparr>authorId = Some ''''\<rparr>) (store_u1, []) =
        Inr (\<lparr>status = 200, body = Json (JObject [(''articles'', JArray [JObject article_u1])])\<rparr>,
             (store_u1, [FindAll]))"
proof -
  have a: "author_of (Some \<lparr>authorId = Some ''''\<rparr>) = Some []"
    by (simp add: author_of_def)
  have d: "findAll mem_repository store_u1 = Inr [article_u1]"
    by (simp add: mem_defs example_defs)
  note t = empty_author_lists_all
    [OF a, of mem_repository "(store_u1, [])" store_u1 "[article_u1]" "[]"]
  from t [THEN conjunct2] d
  have x: "get_handler mem_repository (Some \<lparr>authorId = Some ''''\<rparr>) (store_u1, []) =
        Inr (\<lparr>status = 200, body = Json (JObject [(''articles'', JArray [JObject article_u1])])\<rparr>,
             (store_u1, [FindAll]))"
    by simp
  from t a d x show ?thesis by blast
qed

end
